theory Spec2Isabelle
  imports Complex_Main
begin

section \<open>Python values\<close>

text \<open>
  A Python \<open>str\<close> is a sequence of Unicode code points; slicing and \<open>len\<close> count code
  points, so a string is modelled as the list of its code points. \<open>pystr_of\<close> embeds an
  ASCII literal of the source.
\<close>

type_synonym pystr = "nat list"

definition pystr_of :: "string \<Rightarrow> pystr" where
  "pystr_of s = map of_char s"

text \<open>
  \<open>str.isspace\<close> on one code point: the characters that \<open>str.strip()\<close> without an
  argument removes.
\<close>

definition isspace :: "nat \<Rightarrow> bool" where
  "isspace c =
     ((0x09 \<le> c \<and> c \<le> 0x0D) \<or> (0x1C \<le> c \<and> c \<le> 0x20) \<or> c = 0x85 \<or> c = 0xA0 \<or>
      c = 0x1680 \<or> (0x2000 \<le> c \<and> c \<le> 0x200A) \<or> c = 0x2028 \<or> c = 0x2029 \<or>
      c = 0x202F \<or> c = 0x205F \<or> c = 0x3000)"

definition strip :: "pystr \<Rightarrow> pystr" where
  "strip s = rev (dropWhile isspace (rev (dropWhile isspace s)))"

text \<open>
  The values \<open>json.loads\<close> produces and \<open>jsonify\<close> serialises. \<open>JNull\<close> is Python's
  \<open>None\<close>. A \<open>dict\<close> is an association list read with \<open>map_of\<close>. A \<open>float\<close> is a
  finite value or one of the three specials that \<open>json.loads\<close> accepts.
\<close>

datatype pyfloat = Finite real | Infinity | NegInfinity | NaN

datatype json =
    JNull
  | JBool bool
  | JInt int
  | JFloat pyfloat
  | JStr pystr
  | JArr "json list"
  | JObj "(pystr \<times> json) list"

text \<open>An expression either raises an exception, kept as its text \<open>str(e)\<close>, or returns.\<close>

datatype 'a outcome = Raises pystr | Returns 'a

text \<open>Truthiness, as \<open>if not data\<close> and \<open>if not user_input\<close> test it.\<close>

fun float_truthy :: "pyfloat \<Rightarrow> bool" where
  "float_truthy (Finite r) = (r \<noteq> 0)"
| "float_truthy Infinity = True"
| "float_truthy NegInfinity = True"
| "float_truthy NaN = True"

fun truthy :: "json \<Rightarrow> bool" where
  "truthy JNull = False"
| "truthy (JBool b) = b"
| "truthy (JInt i) = (i \<noteq> 0)"
| "truthy (JFloat f) = float_truthy f"
| "truthy (JStr s) = (s \<noteq> [])"
| "truthy (JArr xs) = (xs \<noteq> [])"
| "truthy (JObj kvs) = (kvs \<noteq> [])"

fun type_name :: "json \<Rightarrow> pystr" where
  "type_name JNull = pystr_of ''NoneType''"
| "type_name (JBool b) = pystr_of ''bool''"
| "type_name (JInt i) = pystr_of ''int''"
| "type_name (JFloat f) = pystr_of ''float''"
| "type_name (JStr s) = pystr_of ''str''"
| "type_name (JArr xs) = pystr_of ''list''"
| "type_name (JObj kvs) = pystr_of ''dict''"

text \<open>The text of the \<open>AttributeError\<close> of a method call on a value without that method.\<close>

definition attribute_error :: "pystr \<Rightarrow> pystr \<Rightarrow> pystr" where
  "attribute_error tn attr =
     [0x27] @ tn @ [0x27] @ pystr_of '' object has no attribute '' @ [0x27] @ attr @ [0x27]"

text \<open>\<open>data.get(key, default)\<close>: only a \<open>dict\<close> has \<open>get\<close>.\<close>

fun py_get :: "json \<Rightarrow> pystr \<Rightarrow> json \<Rightarrow> json outcome" where
  "py_get (JObj kvs) k d = Returns (case map_of kvs k of None \<Rightarrow> d | Some v \<Rightarrow> v)"
| "py_get v k d = Raises (attribute_error (type_name v) (pystr_of ''get''))"

text \<open>\<open>value.strip()\<close>: only a \<open>str\<close> has \<open>strip\<close>.\<close>

fun py_strip :: "json \<Rightarrow> pystr outcome" where
  "py_strip (JStr s) = Returns (strip s)"
| "py_strip v = Raises (attribute_error (type_name v) (pystr_of ''strip''))"

section \<open>The process and its environment\<close>

text \<open>
  The model object of the external SDK is opaque. Of it the program uses its truthiness (an
  object of the SDK's class is truthy, so \<open>not model\<close> holds exactly of \<open>None\<close>) and the
  introspection of \<open>health_check\<close>, which has three outcomes: the attribute
  \<open>model_name\<close> exists, it does not (then \<open>str(model)\<close> is used), or the lookup raises.
\<close>

datatype introspection = HasName pystr | NoName pystr | Fails

datatype handle = Handle (introspect: introspection)

record GenerationConfig =
  max_output_tokens :: nat
  temperature :: real

datatype level = INFO | WARNING | ERROR

text \<open>
  What the program does to the outside, in order: log records, and the calls of the SDK
  (\<open>genai.configure\<close>, the constructor \<open>genai.GenerativeModel\<close>,
  \<open>model.generate_content\<close>) and of the framework (\<open>request.get_json\<close>).
\<close>

datatype event =
    Log level pystr
  | Configure pystr
  | Construct pystr
  | GetJson
  | GenerateContent handle pystr GenerationConfig

record app_state =
  GEMINI_API_KEY :: "pystr option"
  model :: "handle option"

datatype http_method = POST | OPTIONS

text \<open>
  A request as the handler reads it: its method and what \<open>request.get_json()\<close> does on it
  (the framework's parser, outside this program: it returns the parsed value, returns
  \<open>None\<close>, or raises).
\<close>

record request =
  "method" :: http_method
  get_json :: "json outcome"

type_synonym response = "json \<times> nat"

type_synonym constructor = "pystr \<Rightarrow> handle outcome"

type_synonym upstream = "handle \<Rightarrow> pystr \<Rightarrow> GenerationConfig \<Rightarrow> pystr option outcome"

section \<open>Start-up\<close>

definition configure_api :: "pystr option \<Rightarrow> event list" where
  "configure_api key =
     (case key of
        None \<Rightarrow> [Log ERROR (pystr_of ''GEMINI_API_KEY not found in environment variables'')]
      | Some k \<Rightarrow>
          if k = [] then [Log ERROR (pystr_of ''GEMINI_API_KEY not found in environment variables'')]
          else [Configure k, Log INFO (pystr_of ''Gemini API configured successfully'')])"

definition models_to_try :: "pystr list" where
  "models_to_try =
     [pystr_of ''gemini-2.0-flash-exp'', pystr_of ''gemini-1.5-pro'',
      pystr_of ''gemini-1.5-flash'', pystr_of ''gemini-pro'']"

fun try_models :: "constructor \<Rightarrow> pystr list \<Rightarrow> handle option \<times> event list" where
  "try_models mk [] = (None, [])"
| "try_models mk (model_name # rest) =
     (case mk model_name of
        Returns h \<Rightarrow>
          (Some h,
           [Log INFO (pystr_of ''Trying model: '' @ model_name), Construct model_name,
            Log INFO ([0x2705] @ pystr_of '' Successfully initialized model: '' @ model_name)])
      | Raises e \<Rightarrow>
          (case try_models mk rest of
             (m, evs) \<Rightarrow>
               (m,
                [Log INFO (pystr_of ''Trying model: '' @ model_name), Construct model_name,
                 Log WARNING (pystr_of ''Model '' @ model_name @ pystr_of '' not available: ''
                              @ take 100 e)] @ evs)))"

text \<open>
  The module's top level: the key is read from the environment, the client is configured
  when the key is truthy, and the loop runs. Each construction is inside the loop's own
  \<open>try\<close>, so nothing reaches the outer \<open>except\<close> around the loop.
\<close>

definition startup :: "pystr option \<Rightarrow> constructor \<Rightarrow> app_state \<times> event list" where
  "startup key mk =
     (case try_models mk models_to_try of
        (m, evs) \<Rightarrow>
          (\<lparr>GEMINI_API_KEY = key, model = m\<rparr>,
           configure_api key @ evs @
           (if m = None then [Log ERROR (pystr_of ''No available models found!'')] else [])))"

section \<open>Endpoints\<close>

definition health_check :: "app_state \<Rightarrow> pystr \<Rightarrow> response" where
  "health_check st now =
     (let model_name =
            (case model st of
               None \<Rightarrow> pystr_of ''Unknown''
             | Some h \<Rightarrow>
                 (case introspect h of
                    HasName n \<Rightarrow> n
                  | NoName s \<Rightarrow> s
                  | Fails \<Rightarrow> pystr_of ''Initialized''))
      in (JObj [(pystr_of ''status'', JStr (pystr_of ''ok'')),
                (pystr_of ''timestamp'', JStr now),
                (pystr_of ''gemini_configured'', JBool (GEMINI_API_KEY st \<noteq> None)),
                (pystr_of ''model'', JStr model_name)],
          200))"

definition system_prompt :: pystr where
  "system_prompt =
     pystr_of ''You are MedAI Pro, an AI health assistant. Provide CONCISE, PRECISE health advice.\<newline>'' @
     pystr_of ''\<newline>'' @
     pystr_of ''RESPONSE FORMAT (IMPORTANT - Follow exactly):\<newline>'' @
     pystr_of ''1. **Symptoms Analysis**: 2-3 sentences explaining what the symptoms indicate\<newline>'' @
     pystr_of ''2. **Possible Causes**: List 2-3 most likely causes (bullet points)\<newline>'' @
     pystr_of ''3. **Suggested Home Care**: 2-3 quick remedies\<newline>'' @
     pystr_of ''4. **Suggested Medicines**: \<newline>'' @
     pystr_of ''   - Fever: Paracetamol/Ibuprofen\<newline>'' @
     pystr_of ''   - Cough: Dextromethorphan/Honey\<newline>'' @
     pystr_of ''   - Headache: Aspirin/Ibuprofen\<newline>'' @
     pystr_of ''   - Nausea: Ginger/Peppermint\<newline>'' @
     pystr_of ''   - Diarrhea: Loperamide/Electrolytes\<newline>'' @
     pystr_of ''   - Pain: Ibuprofen/Paracetamol\<newline>'' @
     pystr_of ''5. **When to See Doctor**: If symptoms persist >7 days or worsen\<newline>'' @
     pystr_of ''\<newline>'' @
     pystr_of ''CRITICAL RULES:\<newline>'' @
     pystr_of ''- Be VERY BRIEF (max 150 words total)\<newline>'' @
     pystr_of ''- Use bullet points, not paragraphs\<newline>'' @
     pystr_of ''- Include specific medicine names and dosages if applicable\<newline>'' @
     pystr_of ''- NO lengthy explanations\<newline>'' @
     pystr_of ''- Focus on practical advice only\<newline>'' @
     pystr_of ''- Always add: '' @ [0x26A0, 0xFE0F] @ pystr_of '' This is NOT professional medical advice\<newline>'' @
     pystr_of ''\<newline>'' @
     pystr_of ''Example response format:\<newline>'' @
     pystr_of ''**Symptoms Analysis**: You have gastroenteritis. Common viral infection causing vomiting.\<newline>'' @
     pystr_of ''\<newline>'' @
     pystr_of ''**Likely Causes**:\<newline>'' @
     pystr_of ''- Viral gastroenteritis\<newline>'' @
     pystr_of ''- Food poisoning\<newline>'' @
     pystr_of ''- Bacterial infection\<newline>'' @
     pystr_of ''\<newline>'' @
     pystr_of ''**Home Care**:\<newline>'' @
     pystr_of ''- Rest and stay hydrated\<newline>'' @
     pystr_of ''- Eat light foods (rice, toast)\<newline>'' @
     pystr_of ''- Ginger tea helps\<newline>'' @
     pystr_of ''\<newline>'' @
     pystr_of ''**Medicines**:\<newline>'' @
     pystr_of ''- Metoclopramide 10mg (anti-nausea) - 3 times daily\<newline>'' @
     pystr_of ''- Electrolyte solutions for hydration\<newline>'' @
     pystr_of ''- Ibuprofen 400mg if fever present\<newline>'' @
     pystr_of ''\<newline>'' @
     pystr_of ''**When to See Doctor**:\<newline>'' @
     pystr_of ''- Vomiting >24 hours\<newline>'' @
     pystr_of ''- Blood in vomit\<newline>'' @
     pystr_of ''- Severe abdominal pain\<newline>'' @
     pystr_of ''\<newline>'' @
     [0x26A0, 0xFE0F] @ pystr_of '' This is NOT professional medical advice. Consult a doctor for diagnosis.''"

definition full_message :: "pystr \<Rightarrow> pystr" where
  "full_message user_input =
     system_prompt @ pystr_of ''\<newline>\<newline>User Symptom: '' @ user_input @
     pystr_of ''\<newline>\<newline>Provide response in the exact format above. Be VERY BRIEF and CONCISE.''"

definition generation_config :: GenerationConfig where
  "generation_config = \<lparr>max_output_tokens = 500, temperature = 0.7\<rparr>"

text \<open>
  The inner \<open>try\<close>: the completion call and the reading of \<open>response.text\<close>. The
  outcome \<open>Raises\<close> is an exception raised anywhere in it, \<open>Returns None\<close> a falsy
  response or an absent text, \<open>Returns (Some t)\<close> a response whose text is \<open>t\<close>.
\<close>

definition empty_response :: response where
  "empty_response =
     (JObj [(pystr_of ''error'', JStr (pystr_of ''AI model returned empty response. Try again.'')),
            (pystr_of ''success'', JBool False)],
      500)"

definition generate :: "upstream \<Rightarrow> pystr \<Rightarrow> handle \<Rightarrow> pystr \<Rightarrow> response \<times> event list" where
  "generate gen now h user_input =
     (let call = GenerateContent h (full_message user_input) generation_config in
      case gen h (full_message user_input) generation_config of
        Returns None \<Rightarrow> (empty_response, [call, Log ERROR (pystr_of ''Model returned empty response'')])
      | Returns (Some text) \<Rightarrow>
          if text \<noteq> [] then
            ((JObj [(pystr_of ''success'', JBool True),
                    (pystr_of ''response'', JStr text),
                    (pystr_of ''timestamp'', JStr now)],
              200),
             [call, Log INFO ([0x2705] @ pystr_of '' Successfully generated response from Gemini'')])
          else (empty_response, [call, Log ERROR (pystr_of ''Model returned empty response'')])
      | Raises error_msg \<Rightarrow>
          ((JObj [(pystr_of ''error'', JStr (pystr_of ''API Error: '' @ take 100 error_msg)),
                  (pystr_of ''success'', JBool False)],
            500),
           [call, Log ERROR (pystr_of ''Gemini API error: '' @ error_msg)]))"

text \<open>
  The body of the outer \<open>try\<close>: \<open>Raises\<close> is an exception that reaches the outer
  \<open>except\<close>, \<open>Returns\<close> a response returned from inside.
\<close>

definition ai_doctor_try ::
  "app_state \<Rightarrow> upstream \<Rightarrow> pystr \<Rightarrow> request \<Rightarrow> response outcome \<times> event list" where
  "ai_doctor_try st gen now req =
     (case get_json req of
        Raises e \<Rightarrow> (Raises e, [GetJson])
      | Returns data \<Rightarrow>
          if \<not> truthy data then
            (Returns (JObj [(pystr_of ''error'', JStr (pystr_of ''No JSON data provided''))], 400),
             [GetJson])
          else
            (case py_get data (pystr_of ''message'') (JStr []) of
               Raises e \<Rightarrow> (Raises e, [GetJson])
             | Returns v \<Rightarrow>
                 (case py_strip v of
                    Raises e \<Rightarrow> (Raises e, [GetJson])
                  | Returns user_input \<Rightarrow>
                      if user_input = [] then
                        (Returns (JObj [(pystr_of ''error'',
                                         JStr (pystr_of ''Message cannot be empty''))], 400),
                         [GetJson])
                      else
                        (case model st of
                           None \<Rightarrow>
                             (Returns
                                (JObj [(pystr_of ''error'',
                                        JStr (pystr_of ''AI model not initialized. Check your API key and try restarting.'')),
                                       (pystr_of ''success'', JBool False)],
                                 500),
                              [GetJson])
                         | Some h \<Rightarrow>
                             (case generate gen now h user_input of
                                (r, evs) \<Rightarrow>
                                  (Returns r,
                                   [GetJson,
                                    Log INFO (pystr_of ''Processing query: '' @ take 50 user_input
                                              @ pystr_of ''...'')] @ evs))))))"

definition ai_doctor ::
  "app_state \<Rightarrow> upstream \<Rightarrow> pystr \<Rightarrow> request \<Rightarrow> response \<times> event list" where
  "ai_doctor st gen now req =
     (if method req = OPTIONS then ((JObj [(pystr_of ''status'', JStr (pystr_of ''ok''))], 200), [])
      else
        (case ai_doctor_try st gen now req of
           (Returns r, evs) \<Rightarrow> (r, evs)
         | (Raises e, evs) \<Rightarrow>
             ((JObj [(pystr_of ''error'', JStr (pystr_of ''Server error: '' @ take 100 e)),
                     (pystr_of ''success'', JBool False)],
               500),
              evs @ [Log ERROR (pystr_of ''Error in ai_doctor endpoint: '' @ e)])))"

definition specialist :: "int \<Rightarrow> string \<Rightarrow> string \<Rightarrow> real \<Rightarrow> json" where
  "specialist i n s r =
     JObj [(pystr_of ''id'', JInt i), (pystr_of ''name'', JStr (pystr_of n)),
           (pystr_of ''specialty'', JStr (pystr_of s)), (pystr_of ''rating'', JFloat (Finite r))]"

definition specialists :: "json list" where
  "specialists =
     [specialist 1 ''Dr. Rajesh Kumar'' ''Cardiology'' 4.8,
      specialist 2 ''Dr. Priya Sharma'' ''Dermatology'' 4.7,
      specialist 3 ''Dr. Amit Patel'' ''Neurology'' 4.9,
      specialist 4 ''Dr. Anjali Singh'' ''Pediatrics'' 4.6,
      specialist 5 ''Dr. Vikram Gupta'' ''Orthopedics'' 4.8]"

definition get_specialists :: response where
  "get_specialists =
     (JObj [(pystr_of ''success'', JBool True), (pystr_of ''specialists'', JArr specialists)], 200)"

definition tips :: "json list" where
  "tips =
     [JStr (pystr_of ''Stay hydrated - drink at least 8 glasses of water daily''),
      JStr (pystr_of ''Exercise regularly - aim for 30 minutes of physical activity''),
      JStr (pystr_of ''Get adequate sleep - 7-9 hours per night''),
      JStr (pystr_of ''Eat balanced meals with fruits and vegetables''),
      JStr (pystr_of ''Manage stress through meditation or yoga'')]"

definition get_health_tips :: response where
  "get_health_tips =
     (JObj [(pystr_of ''success'', JBool True), (pystr_of ''tips'', JArr tips)], 200)"

definition not_found :: response where
  "not_found = (JObj [(pystr_of ''error'', JStr (pystr_of ''Endpoint not found''))], 404)"

definition internal_error :: "pystr \<Rightarrow> response \<times> event list" where
  "internal_error error =
     ((JObj [(pystr_of ''error'', JStr (pystr_of ''Internal server error''))], 500),
      [Log ERROR (pystr_of ''Internal error: '' @ error)])"

section \<open>Reading a response\<close>

fun fields :: "json \<Rightarrow> (pystr \<times> json) list" where
  "fields (JObj kvs) = kvs"
| "fields v = []"

definition field :: "json \<Rightarrow> string \<Rightarrow> json option" where
  "field j k = map_of (fields j) (pystr_of k)"

fun is_str :: "json \<Rightarrow> bool" where
  "is_str (JStr s) = True"
| "is_str v = False"

fun is_obj :: "json \<Rightarrow> bool" where
  "is_obj (JObj kvs) = True"
| "is_obj v = False"

section \<open>Sample environments\<close>

text \<open>
  The SDK's constructor makes no call to the service: it returns a handle for any name,
  and the handle's \<open>model_name\<close> is the name under \<open>models/\<close>.
\<close>

definition lazy_constructor :: constructor where
  "lazy_constructor model_name = Returns (Handle (HasName (pystr_of ''models/'' @ model_name)))"

definition failing_constructor :: constructor where
  "failing_constructor model_name = Raises (pystr_of ''404 model not found'')"

definition canned_upstream :: "pystr \<Rightarrow> upstream" where
  "canned_upstream text h prompt cfg = Returns (Some text)"

definition raising_upstream :: "pystr \<Rightarrow> upstream" where
  "raising_upstream e h prompt cfg = Raises e"

text \<open>
  The text of the framework's \<open>BadRequest\<close>, which \<open>request.get_json()\<close> raises on a
  body that does not parse.
\<close>

definition bad_request :: pystr where
  "bad_request =
     pystr_of ''400 Bad Request: The browser (or proxy) sent a request that this server could not understand.''"

definition sample_now :: pystr where
  "sample_now = pystr_of ''2026-01-01T09:30:00.000000''"

definition no_model :: app_state where
  "no_model = \<lparr>GEMINI_API_KEY = None, model = None\<rparr>"

definition with_model :: app_state where
  "with_model =
     \<lparr>GEMINI_API_KEY = Some (pystr_of ''key''),
      model = Some (Handle (HasName (pystr_of ''models/gemini-1.5-pro'')))\<rparr>"

definition post :: "json \<Rightarrow> request" where
  "post data = \<lparr>method = POST, get_json = Returns data\<rparr>"

section \<open>Strings\<close>

lemma dropWhile_nil_iff: "dropWhile P xs = [] \<longleftrightarrow> (\<forall>x\<in>set xs. P x)"
  by (induction xs) auto

text \<open>A string strips to nothing exactly when it is empty or all whitespace.\<close>

lemma strip_empty_iff: "strip s = [] \<longleftrightarrow> (\<forall>c\<in>set s. isspace c)"
proof
  assume "strip s = []"
  then have "dropWhile isspace (rev (dropWhile isspace s)) = []"
    by (simp add: strip_def)
  then have a: "\<forall>c\<in>set (dropWhile isspace s). isspace c"
    by (simp add: dropWhile_nil_iff)
  have "dropWhile isspace s = []"
  proof (cases "dropWhile isspace s")
    case Nil
    then show ?thesis .
  next
    case (Cons x xs)
    then have "\<not> isspace x"
      using hd_dropWhile[of isspace s] by simp
    with a Cons show ?thesis by simp
  qed
  then show "\<forall>c\<in>set s. isspace c"
    by (simp add: dropWhile_nil_iff)
next
  assume "\<forall>c\<in>set s. isspace c"
  then have "dropWhile isspace s = []"
    by (simp add: dropWhile_nil_iff)
  then have "strip s = rev (dropWhile isspace (rev []))"
    by (simp only: strip_def)
  then show "strip s = []" by simp
qed

lemma attribute_error_short: "length (attribute_error (type_name v) (pystr_of ''strip'')) \<le> 100"
  by (cases v) (simp_all add: attribute_error_def pystr_of_def)

section \<open>Start-up: the fallback loop\<close>

lemma try_models_no_configure: "Configure k \<notin> set (snd (try_models mk ns))"
  by (induction ns) (auto split: outcome.splits prod.splits)

lemma try_models_none_iff:
  "fst (try_models mk ns) = None \<longleftrightarrow> (\<forall>n\<in>set ns. \<exists>e. mk n = Raises e)"
  by (induction ns) (auto split: outcome.splits prod.splits)

lemma try_models_first: "Construct n \<in> set (snd (try_models mk (n # ns)))"
  by (auto split: outcome.splits prod.splits)

lemma startup_model: "model (fst (startup key mk)) = fst (try_models mk models_to_try)"
  by (simp add: startup_def split: prod.splits)

lemma startup_key: "GEMINI_API_KEY (fst (startup key mk)) = key"
  by (simp add: startup_def split: prod.splits)

lemma startup_events:
  "snd (startup key mk) =
     configure_api key @ snd (try_models mk models_to_try) @
     (if fst (try_models mk models_to_try) = None
      then [Log ERROR (pystr_of ''No available models found!'')] else [])"
  by (simp add: startup_def split: prod.splits)

section \<open>The paths through the AI endpoint\<close>

text \<open>
  One lemma for each way out of the outer \<open>try\<close>: the parser raises, the data is
  falsy, the data is not an object, the message is not a string, the message is blank, the
  message is accepted.
\<close>

lemma try_get_json_raises:
  "get_json req = Raises e \<Longrightarrow> ai_doctor_try st gen now req = (Raises e, [GetJson])"
  by (simp add: ai_doctor_try_def)

lemma try_falsy:
  "get_json req = Returns data \<Longrightarrow> \<not> truthy data \<Longrightarrow>
   ai_doctor_try st gen now req =
     (Returns (JObj [(pystr_of ''error'', JStr (pystr_of ''No JSON data provided''))], 400),
      [GetJson])"
  by (simp add: ai_doctor_try_def)

lemma try_not_str:
  assumes "get_json req = Returns (JObj kvs)" "map_of kvs (pystr_of ''message'') = Some v"
    "\<not> is_str v"
  shows "ai_doctor_try st gen now req =
     (Raises (attribute_error (type_name v) (pystr_of ''strip'')), [GetJson])"
proof -
  from assms(2) have "kvs \<noteq> []" by auto
  moreover from assms(3)
  have "py_strip v = Raises (attribute_error (type_name v) (pystr_of ''strip''))"
    by (cases v) simp_all
  ultimately show ?thesis
    using assms(1,2) by (simp add: ai_doctor_try_def)
qed

lemma try_blank:
  assumes "get_json req = Returns (JObj kvs)" "kvs \<noteq> []"
    "map_of kvs (pystr_of ''message'') = None \<or>
     (\<exists>s. map_of kvs (pystr_of ''message'') = Some (JStr s) \<and> strip s = [])"
  shows "ai_doctor_try st gen now req =
     (Returns (JObj [(pystr_of ''error'', JStr (pystr_of ''Message cannot be empty''))], 400),
      [GetJson])"
  using assms by (auto simp add: ai_doctor_try_def strip_def)

lemma try_message:
  assumes "get_json req = Returns (JObj kvs)"
    "map_of kvs (pystr_of ''message'') = Some (JStr s)" "strip s \<noteq> []"
  shows "ai_doctor_try st gen now req =
     (case model st of
        None \<Rightarrow>
          (Returns
             (JObj [(pystr_of ''error'',
                     JStr (pystr_of ''AI model not initialized. Check your API key and try restarting.'')),
                    (pystr_of ''success'', JBool False)],
              500),
           [GetJson])
      | Some h \<Rightarrow>
          (case generate gen now h (strip s) of
             (r, evs) \<Rightarrow>
               (Returns r,
                [GetJson,
                 Log INFO (pystr_of ''Processing query: '' @ take 50 (strip s) @ pystr_of ''...'')]
                @ evs)))"
proof -
  from assms(2) have "kvs \<noteq> []" by auto
  with assms show ?thesis by (simp add: ai_doctor_try_def)
qed

lemma generate_raises:
  "gen h (full_message u) generation_config = Raises e \<Longrightarrow>
   fst (generate gen now h u) =
     (JObj [(pystr_of ''error'', JStr (pystr_of ''API Error: '' @ take 100 e)),
            (pystr_of ''success'', JBool False)], 500)"
  by (simp add: generate_def)

lemma try_not_obj:
  assumes "get_json req = Returns d" "truthy d" "\<not> is_obj d"
  shows "ai_doctor_try st gen now req =
     (Raises (attribute_error (type_name d) (pystr_of ''get'')), [GetJson])"
  using assms by (cases d) (simp_all add: ai_doctor_try_def)

text \<open>A request that fails validation has the same answer in every state.\<close>

lemma try_invalid:
  assumes "\<not> (\<exists>kvs s. get_json req = Returns (JObj kvs) \<and>
               map_of kvs (pystr_of ''message'') = Some (JStr s) \<and> strip s \<noteq> [])"
  shows "ai_doctor_try st gen now req = ai_doctor_try st' gen' now' req \<and>
         snd (ai_doctor_try st gen now req) = [GetJson] \<and>
         (fst (ai_doctor_try st gen now req) =
            Returns (JObj [(pystr_of ''error'', JStr (pystr_of ''No JSON data provided''))], 400) \<or>
          fst (ai_doctor_try st gen now req) =
            Returns (JObj [(pystr_of ''error'', JStr (pystr_of ''Message cannot be empty''))], 400) \<or>
          (\<exists>e. fst (ai_doctor_try st gen now req) = Raises e))"
proof (cases "get_json req")
  case (Raises e)
  then show ?thesis by (simp add: ai_doctor_try_def)
next
  case (Returns d)
  show ?thesis
  proof (cases "truthy d")
    case False
    with Returns show ?thesis by (simp add: ai_doctor_try_def)
  next
    case True
    show ?thesis
    proof (cases "is_obj d")
      case False
      from try_not_obj[OF Returns True False] show ?thesis by simp
    next
      case obj: True
      then obtain kvs where d: "d = JObj kvs" by (cases d) simp_all
      show ?thesis
      proof (cases "map_of kvs (pystr_of ''message'')")
        case None
        with Returns True d show ?thesis by (simp add: ai_doctor_try_def strip_def)
      next
        case (Some v)
        show ?thesis
        proof (cases "is_str v")
          case False
          from try_not_str[OF Returns[unfolded d] Some False] show ?thesis by simp
        next
          case str: True
          then obtain s where v: "v = JStr s" by (cases v) simp_all
          with assms Returns d Some have "strip s = []" by simp
          with Returns True d Some v show ?thesis by (simp add: ai_doctor_try_def)
        qed
      qed
    qed
  qed
qed

text \<open>For an accepted request with a model handle the completion call is made and recorded.\<close>

lemma accepted_call:
  assumes "method req = POST" "get_json req = Returns (JObj kvs)"
    "map_of kvs (pystr_of ''message'') = Some (JStr s)" "strip s \<noteq> []" "model st = Some h"
  shows "fst (ai_doctor st gen now req) = fst (generate gen now h (strip s))"
    and "GenerateContent h (full_message (strip s)) generation_config
           \<in> set (snd (ai_doctor st gen now req))"
proof -
  from assms(5) try_message[OF assms(2,3,4), of st gen now]
  have t: "ai_doctor_try st gen now req =
      (Returns (fst (generate gen now h (strip s))),
       [GetJson,
        Log INFO (pystr_of ''Processing query: '' @ take 50 (strip s) @ pystr_of ''...'')]
       @ snd (generate gen now h (strip s)))"
    by (simp add: case_prod_beta)
  with assms(1) show "fst (ai_doctor st gen now req) = fst (generate gen now h (strip s))"
    by (simp add: ai_doctor_def)
  have "GenerateContent h (full_message (strip s)) generation_config
          \<in> set (snd (generate gen now h (strip s)))"
    by (simp add: generate_def Let_def split: outcome.splits option.splits)
  with t assms(1) show "GenerateContent h (full_message (strip s)) generation_config
           \<in> set (snd (ai_doctor st gen now req))"
    by (simp add: ai_doctor_def)
qed

text \<open>The three places of the handler's body where an exception starts.\<close>

lemma try_raises_cases:
  assumes "fst (ai_doctor_try st gen now req) = Raises e"
  shows "get_json req = Raises e \<or>
         (\<exists>d. get_json req = Returns d \<and> truthy d \<and> \<not> is_obj d \<and>
               e = attribute_error (type_name d) (pystr_of ''get'')) \<or>
         (\<exists>kvs v. get_json req = Returns (JObj kvs) \<and>
               map_of kvs (pystr_of ''message'') = Some v \<and> \<not> is_str v \<and>
               e = attribute_error (type_name v) (pystr_of ''strip''))"
proof (cases "get_json req")
  case (Raises x)
  with assms show ?thesis by (simp add: ai_doctor_try_def)
next
  case (Returns d)
  show ?thesis
  proof (cases "truthy d")
    case False
    with Returns assms show ?thesis by (simp add: ai_doctor_try_def)
  next
    case True
    show ?thesis
    proof (cases "is_obj d")
      case False
      from try_not_obj[OF Returns True False, of st gen now] assms Returns True False
      show ?thesis by auto
    next
      case obj: True
      then obtain kvs where d: "d = JObj kvs" by (cases d) simp_all
      show ?thesis
      proof (cases "map_of kvs (pystr_of ''message'')")
        case None
        with Returns True d assms show ?thesis
          by (simp add: ai_doctor_try_def strip_def)
      next
        case (Some v)
        show ?thesis
        proof (cases "is_str v")
          case False
          from try_not_str[OF Returns[unfolded d] Some False, of st gen now] assms Returns d Some False
          show ?thesis by auto
        next
          case str: True
          then obtain s where v: "v = JStr s" by (cases v) simp_all
          with Returns True d Some assms show ?thesis
            by (auto simp add: ai_doctor_try_def case_prod_beta split: if_splits option.splits)
        qed
      qed
    qed
  qed
qed

section \<open>The claims\<close>

text \<open>
  Claim C1, as the code has it: validation of the body and of the message comes before the
  test of the model handle. For a POST request whose body is a JSON object with a string
  \<open>message\<close> that is non-empty after trimming, a missing model handle gives status 500
  with the "AI model not initialized" message, and the completion call is not made. Every
  other POST request is rejected before the handle is read: its answer is the same in
  every state, and is status 400 with "No JSON data provided", status 400 with
  "Message cannot be empty", or status 500 with a "Server error: " message.
\<close>

theorem no_model_500:
  assumes "method req = POST"
  shows
    "(get_json req = Returns (JObj kvs) \<and> map_of kvs (pystr_of ''message'') = Some (JStr s) \<and>
      strip s \<noteq> [] \<and> model st = None \<longrightarrow>
        ai_doctor st gen now req =
          ((JObj [(pystr_of ''error'',
                   JStr (pystr_of ''AI model not initialized. Check your API key and try restarting.'')),
                  (pystr_of ''success'', JBool False)], 500),
           [GetJson])) \<and>
     (\<not> (\<exists>kvs s. get_json req = Returns (JObj kvs) \<and>
               map_of kvs (pystr_of ''message'') = Some (JStr s) \<and> strip s \<noteq> []) \<longrightarrow>
        ai_doctor st gen now req = ai_doctor st' gen' now' req \<and>
        (fst (ai_doctor st gen now req) =
           (JObj [(pystr_of ''error'', JStr (pystr_of ''No JSON data provided''))], 400) \<or>
         fst (ai_doctor st gen now req) =
           (JObj [(pystr_of ''error'', JStr (pystr_of ''Message cannot be empty''))], 400) \<or>
         (\<exists>e. fst (ai_doctor st gen now req) =
            (JObj [(pystr_of ''error'', JStr (pystr_of ''Server error: '' @ take 100 e)),
                   (pystr_of ''success'', JBool False)], 500))))"
proof (intro conjI impI)
  assume v: "get_json req = Returns (JObj kvs) \<and>
    map_of kvs (pystr_of ''message'') = Some (JStr s) \<and> strip s \<noteq> [] \<and> model st = None"
  then have "ai_doctor_try st gen now req =
     (Returns
        (JObj [(pystr_of ''error'',
                JStr (pystr_of ''AI model not initialized. Check your API key and try restarting.'')),
               (pystr_of ''success'', JBool False)], 500),
      [GetJson])"
    using try_message[of req kvs s st gen now] by simp
  with assms show "ai_doctor st gen now req =
          ((JObj [(pystr_of ''error'',
                   JStr (pystr_of ''AI model not initialized. Check your API key and try restarting.'')),
                  (pystr_of ''success'', JBool False)], 500),
           [GetJson])"
    by (simp add: ai_doctor_def)
next
  assume inv: "\<not> (\<exists>kvs s. get_json req = Returns (JObj kvs) \<and>
               map_of kvs (pystr_of ''message'') = Some (JStr s) \<and> strip s \<noteq> [])"
  note ti = try_invalid[OF inv, of st gen now st' gen' now']
  from ti have same: "ai_doctor_try st gen now req = ai_doctor_try st' gen' now' req"
    by (rule conjunct1)
  from ti have shape: "fst (ai_doctor_try st gen now req) =
            Returns (JObj [(pystr_of ''error'', JStr (pystr_of ''No JSON data provided''))], 400) \<or>
          fst (ai_doctor_try st gen now req) =
            Returns (JObj [(pystr_of ''error'', JStr (pystr_of ''Message cannot be empty''))], 400) \<or>
          (\<exists>e. fst (ai_doctor_try st gen now req) = Raises e)"
    by blast
  from same show "ai_doctor st gen now req = ai_doctor st' gen' now' req"
    by (simp add: ai_doctor_def)
  from shape assms
  show "fst (ai_doctor st gen now req) =
           (JObj [(pystr_of ''error'', JStr (pystr_of ''No JSON data provided''))], 400) \<or>
         fst (ai_doctor st gen now req) =
           (JObj [(pystr_of ''error'', JStr (pystr_of ''Message cannot be empty''))], 400) \<or>
         (\<exists>e. fst (ai_doctor st gen now req) =
            (JObj [(pystr_of ''error'', JStr (pystr_of ''Server error: '' @ take 100 e)),
                   (pystr_of ''success'', JBool False)], 500))"
    by (cases "ai_doctor_try st gen now req") (auto simp add: ai_doctor_def)
qed

theorem no_model_500_witness:
  "ai_doctor no_model (canned_upstream (pystr_of ''Rest.'')) sample_now
     (post (JObj [(pystr_of ''message'', JStr (pystr_of '' fever ''))])) =
     ((JObj [(pystr_of ''error'',
              JStr (pystr_of ''AI model not initialized. Check your API key and try restarting.'')),
             (pystr_of ''success'', JBool False)], 500),
      [GetJson]) \<and>
   ai_doctor no_model (canned_upstream (pystr_of ''Rest.'')) sample_now
     (post (JObj [(pystr_of ''message'', JStr (pystr_of ''  ''))])) =
   ai_doctor with_model (raising_upstream (pystr_of ''quota'')) []
     (post (JObj [(pystr_of ''message'', JStr (pystr_of ''  ''))]))"
proof
  show "ai_doctor no_model (canned_upstream (pystr_of ''Rest.'')) sample_now
     (post (JObj [(pystr_of ''message'', JStr (pystr_of '' fever ''))])) =
     ((JObj [(pystr_of ''error'',
              JStr (pystr_of ''AI model not initialized. Check your API key and try restarting.'')),
             (pystr_of ''success'', JBool False)], 500),
      [GetJson])"
    using no_model_500[where st = no_model
      and req = "post (JObj [(pystr_of ''message'', JStr (pystr_of '' fever ''))])"
      and kvs = "[(pystr_of ''message'', JStr (pystr_of '' fever ''))]"
      and s = "pystr_of '' fever ''" and gen = "canned_upstream (pystr_of ''Rest.'')"
      and now = sample_now]
    by (simp add: no_model_def post_def strip_def isspace_def pystr_of_def)
next
  have "\<not> (\<exists>kvs s. get_json (post (JObj [(pystr_of ''message'', JStr (pystr_of ''  ''))]))
                 = Returns (JObj kvs) \<and>
               map_of kvs (pystr_of ''message'') = Some (JStr s) \<and> strip s \<noteq> [])"
    by (auto simp add: post_def strip_def isspace_def pystr_of_def)
  then show "ai_doctor no_model (canned_upstream (pystr_of ''Rest.'')) sample_now
     (post (JObj [(pystr_of ''message'', JStr (pystr_of ''  ''))])) =
   ai_doctor with_model (raising_upstream (pystr_of ''quota'')) []
     (post (JObj [(pystr_of ''message'', JStr (pystr_of ''  ''))]))"
    using no_model_500[where st = no_model
      and req = "post (JObj [(pystr_of ''message'', JStr (pystr_of ''  ''))])"
      and gen = "canned_upstream (pystr_of ''Rest.'')" and now = sample_now
      and st' = with_model and gen' = "raising_upstream (pystr_of ''quota'')" and now' = "[]"]
    by (simp add: post_def)
qed

text \<open>
  The claim as written fails: without a model handle, a body that is not JSON data and a
  blank message are both answered with status 400.
\<close>

theorem no_model_500_counterexample:
  "fst (ai_doctor no_model (canned_upstream (pystr_of ''Rest.'')) sample_now (post JNull)) =
     (JObj [(pystr_of ''error'', JStr (pystr_of ''No JSON data provided''))], 400) \<and>
   fst (ai_doctor no_model (canned_upstream (pystr_of ''Rest.'')) sample_now
          (post (JObj [(pystr_of ''message'', JStr (pystr_of ''  ''))]))) =
     (JObj [(pystr_of ''error'', JStr (pystr_of ''Message cannot be empty''))], 400)"
  by (simp add: ai_doctor_def ai_doctor_try_def no_model_def post_def strip_def isspace_def
      pystr_of_def)

text \<open>
  Claim C2, as the code has it: without the API key the client is never configured and
  the missing key is logged as an error, but the fallback loop still runs. The first
  candidate is attempted, and the model handle is unset exactly when the construction of
  every candidate fails.
\<close>

theorem startup_without_key:
  "(\<forall>k. Configure k \<notin> set (snd (startup None mk))) \<and>
   Log ERROR (pystr_of ''GEMINI_API_KEY not found in environment variables'')
     \<in> set (snd (startup None mk)) \<and>
   Construct (pystr_of ''gemini-2.0-flash-exp'') \<in> set (snd (startup None mk)) \<and>
   (model (fst (startup None mk)) = None \<longleftrightarrow> (\<forall>n\<in>set models_to_try. \<exists>e. mk n = Raises e))"
proof (intro conjI allI)
  fix k
  show "Configure k \<notin> set (snd (startup None mk))"
    using try_models_no_configure[of k mk models_to_try]
    by (simp add: startup_events configure_api_def)
next
  show "Log ERROR (pystr_of ''GEMINI_API_KEY not found in environment variables'')
     \<in> set (snd (startup None mk))"
    by (simp add: startup_events configure_api_def)
next
  show "Construct (pystr_of ''gemini-2.0-flash-exp'') \<in> set (snd (startup None mk))"
    using try_models_first[of "pystr_of ''gemini-2.0-flash-exp''" mk]
    by (simp add: startup_events models_to_try_def)
next
  show "model (fst (startup None mk)) = None \<longleftrightarrow> (\<forall>n\<in>set models_to_try. \<exists>e. mk n = Raises e)"
    by (simp only: startup_model try_models_none_iff)
qed

theorem startup_without_key_witness:
  "model (fst (startup None failing_constructor)) = None \<and>
   Log ERROR (pystr_of ''GEMINI_API_KEY not found in environment variables'')
     \<in> set (snd (startup None failing_constructor)) \<and>
   Construct (pystr_of ''gemini-2.0-flash-exp'') \<in> set (snd (startup None failing_constructor))"
  using startup_without_key[of failing_constructor] by (simp add: failing_constructor_def)

text \<open>
  The claim as written fails: without the key, the first candidate is constructed and kept
  as the model handle.
\<close>

theorem startup_without_key_counterexample:
  "model (fst (startup None lazy_constructor)) =
     Some (Handle (HasName (pystr_of ''models/gemini-2.0-flash-exp''))) \<and>
   Construct (pystr_of ''gemini-2.0-flash-exp'') \<in> set (snd (startup None lazy_constructor))"
  by (simp add: startup_def models_to_try_def lazy_constructor_def configure_api_def pystr_of_def)

text \<open>
  Claim C3, at a body that does not parse: \<open>request.get_json()\<close> raises, the exception
  reaches the outer \<open>except\<close>, and the answer is status 500 with a "Server error: "
  message, not status 400 with "No JSON data provided".
\<close>

theorem unparseable_body_500:
  "fst (ai_doctor st gen now \<lparr>method = POST, get_json = Raises bad_request\<rparr>) =
     (JObj [(pystr_of ''error'', JStr (pystr_of ''Server error: '' @ bad_request)),
            (pystr_of ''success'', JBool False)], 500)"
proof -
  have "length bad_request \<le> 100"
    by (simp add: bad_request_def pystr_of_def)
  then show ?thesis
    by (simp add: ai_doctor_def ai_doctor_try_def)
qed

text \<open>
  Claim C4: for a POST request with a message that is non-empty after trimming, an
  available model handle and a completion call that returns non-empty text, the answer is
  status 200 with \<open>success\<close> true, the text as it came, and the timestamp.
\<close>

theorem success_200:
  assumes "method req = POST" "get_json req = Returns (JObj kvs)"
    "map_of kvs (pystr_of ''message'') = Some (JStr s)" "strip s \<noteq> []"
    "model st = Some h"
    "gen h (full_message (strip s)) generation_config = Returns (Some reply)" "reply \<noteq> []"
  shows "fst (ai_doctor st gen now req) =
     (JObj [(pystr_of ''success'', JBool True), (pystr_of ''response'', JStr reply),
            (pystr_of ''timestamp'', JStr now)], 200)"
  using assms(1,5,6,7) try_message[OF assms(2,3,4), of st gen now]
  by (simp add: ai_doctor_def generate_def)

theorem success_200_witness:
  "fst (ai_doctor with_model (canned_upstream (pystr_of ''Rest.'')) sample_now
          (post (JObj [(pystr_of ''message'', JStr (pystr_of '' fever ''))]))) =
     (JObj [(pystr_of ''success'', JBool True), (pystr_of ''response'', JStr (pystr_of ''Rest.'')),
            (pystr_of ''timestamp'', JStr sample_now)], 200)"
  using success_200[where st = with_model
      and req = "post (JObj [(pystr_of ''message'', JStr (pystr_of '' fever ''))])"
      and kvs = "[(pystr_of ''message'', JStr (pystr_of '' fever ''))]"
      and s = "pystr_of '' fever ''" and gen = "canned_upstream (pystr_of ''Rest.'')"
      and h = "Handle (HasName (pystr_of ''models/gemini-1.5-pro''))"
      and reply = "pystr_of ''Rest.''" and now = sample_now]
  by (simp add: with_model_def post_def canned_upstream_def strip_def isspace_def pystr_of_def)

text \<open>
  Claim C5, as the code has it: for a POST request whose body is a non-empty JSON object in
  which \<open>message\<close> is missing, the empty string or a string of whitespace only, the
  answer is status 400 with "Message cannot be empty", whatever the model handle.
\<close>

theorem blank_message_400:
  assumes "method req = POST" "get_json req = Returns (JObj kvs)" "kvs \<noteq> []"
    "map_of kvs (pystr_of ''message'') = None \<or>
     (\<exists>s. map_of kvs (pystr_of ''message'') = Some (JStr s) \<and> (\<forall>c\<in>set s. isspace c))"
  shows "fst (ai_doctor st gen now req) =
     (JObj [(pystr_of ''error'', JStr (pystr_of ''Message cannot be empty''))], 400)"
proof -
  from assms(4) have "map_of kvs (pystr_of ''message'') = None \<or>
     (\<exists>s. map_of kvs (pystr_of ''message'') = Some (JStr s) \<and> strip s = [])"
    by (simp add: strip_empty_iff)
  from try_blank[OF assms(2,3) this, of st gen now] assms(1) show ?thesis
    by (simp add: ai_doctor_def)
qed

theorem blank_message_400_witness:
  "fst (ai_doctor with_model (canned_upstream (pystr_of ''Rest.'')) sample_now
          (post (JObj [(pystr_of ''message'', JStr [0x20, 0x09, 0xA0])]))) =
     (JObj [(pystr_of ''error'', JStr (pystr_of ''Message cannot be empty''))], 400) \<and>
   fst (ai_doctor with_model (canned_upstream (pystr_of ''Rest.'')) sample_now
          (post (JObj [(pystr_of ''text'', JStr (pystr_of ''fever''))]))) =
     (JObj [(pystr_of ''error'', JStr (pystr_of ''Message cannot be empty''))], 400)"
proof
  have "map_of [(pystr_of ''message'', JStr [0x20, 0x09, 0xA0])] (pystr_of ''message'') = None \<or>
     (\<exists>s. map_of [(pystr_of ''message'', JStr [0x20, 0x09, 0xA0])] (pystr_of ''message'')
            = Some (JStr s) \<and> (\<forall>c\<in>set s. isspace c))"
    by (simp add: isspace_def)
  then show "fst (ai_doctor with_model (canned_upstream (pystr_of ''Rest.'')) sample_now
          (post (JObj [(pystr_of ''message'', JStr [0x20, 0x09, 0xA0])]))) =
     (JObj [(pystr_of ''error'', JStr (pystr_of ''Message cannot be empty''))], 400)"
    using blank_message_400[where req = "post (JObj [(pystr_of ''message'', JStr [0x20, 0x09, 0xA0])])"
        and kvs = "[(pystr_of ''message'', JStr [0x20, 0x09, 0xA0])]" and st = with_model
        and gen = "canned_upstream (pystr_of ''Rest.'')" and now = sample_now]
    by (simp add: post_def)
next
  have "map_of [(pystr_of ''text'', JStr (pystr_of ''fever''))] (pystr_of ''message'') = None"
    by (simp add: pystr_of_def)
  then show "fst (ai_doctor with_model (canned_upstream (pystr_of ''Rest.'')) sample_now
          (post (JObj [(pystr_of ''text'', JStr (pystr_of ''fever''))]))) =
     (JObj [(pystr_of ''error'', JStr (pystr_of ''Message cannot be empty''))], 400)"
    using blank_message_400[where req = "post (JObj [(pystr_of ''text'', JStr (pystr_of ''fever''))])"
        and kvs = "[(pystr_of ''text'', JStr (pystr_of ''fever''))]" and st = with_model
        and gen = "canned_upstream (pystr_of ''Rest.'')" and now = sample_now]
    by (simp add: post_def)
qed

text \<open>
  The claim as written fails: the empty object is a JSON body without a \<open>message\<close> and
  is answered with "No JSON data provided"; a JSON list without a \<open>message\<close> is answered
  with status 500.
\<close>

theorem blank_message_400_counterexample:
  "fst (ai_doctor with_model (canned_upstream (pystr_of ''Rest.'')) sample_now (post (JObj []))) =
     (JObj [(pystr_of ''error'', JStr (pystr_of ''No JSON data provided''))], 400) \<and>
   pystr_of ''No JSON data provided'' \<noteq> pystr_of ''Message cannot be empty'' \<and>
   snd (fst (ai_doctor with_model (canned_upstream (pystr_of ''Rest.'')) sample_now
               (post (JArr [JInt 1])))) = 500"
  by (simp add: ai_doctor_def ai_doctor_try_def post_def pystr_of_def)

text \<open>
  Claim C6: when the completion call of an accepted request raises, the call is the one
  recorded and the error shown to the client is "API Error: " and the first 100 characters
  of the exception text. When an exception starts elsewhere in the handler's body (the
  parser raises, the body has no \<open>get\<close>, the message has no \<open>strip\<close>), the error is
  "Server error: " and the first 100 characters. The excerpt has the length of the text or
  100, whichever is less, and is the whole text when that has at most 100 characters.
\<close>

theorem exception_excerpt:
  assumes "method req = POST"
  shows
    "(get_json req = Returns (JObj kvs) \<and> map_of kvs (pystr_of ''message'') = Some (JStr s) \<and>
      strip s \<noteq> [] \<and> model st = Some h \<and>
      gen h (full_message (strip s)) generation_config = Raises e \<longrightarrow>
        fst (ai_doctor st gen now req) =
          (JObj [(pystr_of ''error'', JStr (pystr_of ''API Error: '' @ take 100 e)),
                 (pystr_of ''success'', JBool False)], 500) \<and>
        GenerateContent h (full_message (strip s)) generation_config
          \<in> set (snd (ai_doctor st gen now req))) \<and>
     (get_json req = Raises e \<or>
      (get_json req = Returns d \<and> truthy d \<and> \<not> is_obj d \<and>
       e = attribute_error (type_name d) (pystr_of ''get'')) \<or>
      (get_json req = Returns (JObj kvs) \<and> map_of kvs (pystr_of ''message'') = Some v \<and>
       \<not> is_str v \<and> e = attribute_error (type_name v) (pystr_of ''strip'')) \<longrightarrow>
        fst (ai_doctor st gen now req) =
          (JObj [(pystr_of ''error'', JStr (pystr_of ''Server error: '' @ take 100 e)),
                 (pystr_of ''success'', JBool False)], 500)) \<and>
     length (take 100 e) = min 100 (length e) \<and>
     (length e \<le> 100 \<longrightarrow> take 100 e = e)"
proof (intro conjI impI)
  assume a: "get_json req = Returns (JObj kvs) \<and>
    map_of kvs (pystr_of ''message'') = Some (JStr s) \<and> strip s \<noteq> [] \<and> model st = Some h \<and>
    gen h (full_message (strip s)) generation_config = Raises e"
  then have r: "fst (generate gen now h (strip s)) =
     (JObj [(pystr_of ''error'', JStr (pystr_of ''API Error: '' @ take 100 e)),
            (pystr_of ''success'', JBool False)], 500)"
    using generate_raises[where gen=gen and h=h and u="strip s" and e=e and now=now] by simp
  from a assms accepted_call(1)[of req kvs s st h gen now] r
  show "fst (ai_doctor st gen now req) =
          (JObj [(pystr_of ''error'', JStr (pystr_of ''API Error: '' @ take 100 e)),
                 (pystr_of ''success'', JBool False)], 500)"
    by simp
  from a assms accepted_call(2)[of req kvs s st h gen now]
  show "GenerateContent h (full_message (strip s)) generation_config
          \<in> set (snd (ai_doctor st gen now req))"
    by simp
next
  assume b: "get_json req = Raises e \<or>
      (get_json req = Returns d \<and> truthy d \<and> \<not> is_obj d \<and>
       e = attribute_error (type_name d) (pystr_of ''get'')) \<or>
      (get_json req = Returns (JObj kvs) \<and> map_of kvs (pystr_of ''message'') = Some v \<and>
       \<not> is_str v \<and> e = attribute_error (type_name v) (pystr_of ''strip''))"
  have "ai_doctor_try st gen now req = (Raises e, [GetJson])"
    using b try_get_json_raises[of req e st gen now] try_not_obj[of req d st gen now]
      try_not_str[of req kvs v st gen now]
    by blast
  with assms show "fst (ai_doctor st gen now req) =
          (JObj [(pystr_of ''error'', JStr (pystr_of ''Server error: '' @ take 100 e)),
                 (pystr_of ''success'', JBool False)], 500)"
    by (simp add: ai_doctor_def)
next
  show "length (take 100 e) = min 100 (length e)"
    by simp
next
  assume "length e \<le> 100"
  then show "take 100 e = e"
    by simp
qed

theorem exception_excerpt_witness:
  "fst (ai_doctor with_model (raising_upstream (replicate 101 120)) sample_now
          (post (JObj [(pystr_of ''message'', JStr (pystr_of ''fever''))]))) =
     (JObj [(pystr_of ''error'', JStr (pystr_of ''API Error: '' @ replicate 100 120)),
            (pystr_of ''success'', JBool False)], 500) \<and>
   fst (ai_doctor with_model (canned_upstream (pystr_of ''Rest.'')) sample_now
          (post (JArr [JInt 1]))) =
     (JObj [(pystr_of ''error'',
             JStr (pystr_of ''Server error: '' @ [0x27] @ pystr_of ''list'' @ [0x27] @
                   pystr_of '' object has no attribute '' @ [0x27] @ pystr_of ''get'' @ [0x27])),
            (pystr_of ''success'', JBool False)], 500)"
proof
  have "strip (pystr_of ''fever'') \<noteq> []"
    by (simp add: strip_def isspace_def pystr_of_def)
  then show "fst (ai_doctor with_model (raising_upstream (replicate 101 120)) sample_now
          (post (JObj [(pystr_of ''message'', JStr (pystr_of ''fever''))]))) =
     (JObj [(pystr_of ''error'', JStr (pystr_of ''API Error: '' @ replicate 100 120)),
            (pystr_of ''success'', JBool False)], 500)"
    using exception_excerpt[where req = "post (JObj [(pystr_of ''message'', JStr (pystr_of ''fever''))])"
        and kvs = "[(pystr_of ''message'', JStr (pystr_of ''fever''))]"
        and s = "pystr_of ''fever''"
        and st = with_model and gen = "raising_upstream (replicate 101 120)" and now = sample_now
        and h = "Handle (HasName (pystr_of ''models/gemini-1.5-pro''))"
        and e = "replicate 101 120"]
    by (simp add: post_def with_model_def raising_upstream_def)
next
  show "fst (ai_doctor with_model (canned_upstream (pystr_of ''Rest.'')) sample_now
          (post (JArr [JInt 1]))) =
     (JObj [(pystr_of ''error'',
             JStr (pystr_of ''Server error: '' @ [0x27] @ pystr_of ''list'' @ [0x27] @
                   pystr_of '' object has no attribute '' @ [0x27] @ pystr_of ''get'' @ [0x27])),
            (pystr_of ''success'', JBool False)], 500)"
    using exception_excerpt[where req = "post (JArr [JInt 1])" and d = "JArr [JInt 1]"
        and st = with_model and gen = "canned_upstream (pystr_of ''Rest.'')" and now = sample_now
        and e = "attribute_error (pystr_of ''list'') (pystr_of ''get'')"]
    by (simp add: post_def attribute_error_def pystr_of_def)
qed

text \<open>
  Claim C7: an OPTIONS request is answered with status 200 and \<open>{status: "ok"}\<close>, and
  nothing is done to the outside: the body is not parsed and no completion call is made,
  whatever the body, the model handle and the service are.
\<close>

theorem options_ok:
  "method req = OPTIONS \<Longrightarrow>
   ai_doctor st gen now req = ((JObj [(pystr_of ''status'', JStr (pystr_of ''ok''))], 200), [])"
  by (simp add: ai_doctor_def)

theorem options_ok_witness:
  "ai_doctor with_model (raising_upstream (pystr_of ''quota'')) sample_now
     \<lparr>method = OPTIONS, get_json = Raises (pystr_of ''415 Unsupported Media Type'')\<rparr> =
     ((JObj [(pystr_of ''status'', JStr (pystr_of ''ok''))], 200), [])"
  using options_ok[where req = "\<lparr>method = OPTIONS, get_json = Raises (pystr_of ''415 Unsupported Media Type'')\<rparr>"
      and st = with_model and gen = "raising_upstream (pystr_of ''quota'')" and now = sample_now]
  by simp

text \<open>
  Claim C8: the specialists endpoint takes no input and answers with status 200,
  \<open>success\<close> true and a list of exactly 5 entries whose ids are 1 to 5 in order.
\<close>

theorem specialists_fixed:
  "snd get_specialists = 200 \<and>
   field (fst get_specialists) ''success'' = Some (JBool True) \<and>
   field (fst get_specialists) ''specialists'' = Some (JArr specialists) \<and>
   length specialists = 5 \<and>
   map (\<lambda>entry. field entry ''id'') specialists =
     [Some (JInt 1), Some (JInt 2), Some (JInt 3), Some (JInt 4), Some (JInt 5)]"
proof (intro conjI)
  show "snd get_specialists = 200"
    by (simp add: get_specialists_def)
  show "field (fst get_specialists) ''success'' = Some (JBool True)"
    by (simp add: get_specialists_def field_def)
  show "field (fst get_specialists) ''specialists'' = Some (JArr specialists)"
    by (simp add: get_specialists_def field_def pystr_of_def)
  show "length specialists = 5"
    by (simp add: specialists_def)
  show "map (\<lambda>entry. field entry ''id'') specialists =
     [Some (JInt 1), Some (JInt 2), Some (JInt 3), Some (JInt 4), Some (JInt 5)]"
    by (simp add: specialists_def specialist_def field_def)
qed

text \<open>
  Claim C9: for a POST request whose JSON object maps \<open>message\<close> to a value that is
  not a string, \<open>strip\<close> raises, the outer boundary catches it, and the answer is status
  500 with an error that begins "Server error: ", whatever the model handle.
\<close>

theorem non_string_message_500:
  assumes "method req = POST" "get_json req = Returns (JObj kvs)"
    "map_of kvs (pystr_of ''message'') = Some v" "\<not> is_str v"
  shows "fst (ai_doctor st gen now req) =
     (JObj [(pystr_of ''error'',
             JStr (pystr_of ''Server error: '' @ attribute_error (type_name v) (pystr_of ''strip''))),
            (pystr_of ''success'', JBool False)], 500)"
  using assms(1) try_not_str[OF assms(2,3,4), of st gen now] attribute_error_short[of v]
  by (simp add: ai_doctor_def)

theorem non_string_message_500_witness:
  "fst (ai_doctor with_model (canned_upstream (pystr_of ''Rest.'')) sample_now
          (post (JObj [(pystr_of ''message'', JInt 42)]))) =
     (JObj [(pystr_of ''error'',
             JStr (pystr_of ''Server error: '' @ [0x27] @ pystr_of ''int'' @ [0x27] @
                   pystr_of '' object has no attribute '' @ [0x27] @ pystr_of ''strip'' @ [0x27])),
            (pystr_of ''success'', JBool False)], 500)"
  using non_string_message_500[where req = "post (JObj [(pystr_of ''message'', JInt 42)])"
      and kvs = "[(pystr_of ''message'', JInt 42)]" and v = "JInt 42" and st = with_model
      and gen = "canned_upstream (pystr_of ''Rest.'')" and now = sample_now]
  by (simp add: post_def attribute_error_def)

text \<open>
  Claim C10: with the API key set to the empty string, start-up treats the key as absent
  (the client is never configured and the error is logged, as without a key), and the
  health check still reports \<open>gemini_configured\<close> true.
\<close>

theorem empty_key_health:
  "configure_api (Some []) = configure_api None \<and>
   (\<forall>k. Configure k \<notin> set (snd (startup (Some []) mk))) \<and>
   Log ERROR (pystr_of ''GEMINI_API_KEY not found in environment variables'')
     \<in> set (snd (startup (Some []) mk)) \<and>
   field (fst (health_check (fst (startup (Some []) mk)) now)) ''gemini_configured''
     = Some (JBool True)"
proof (intro conjI allI)
  show "configure_api (Some []) = configure_api None"
    by (simp add: configure_api_def)
next
  fix k
  show "Configure k \<notin> set (snd (startup (Some []) mk))"
    using try_models_no_configure[of k mk models_to_try]
    by (simp add: startup_events configure_api_def)
next
  show "Log ERROR (pystr_of ''GEMINI_API_KEY not found in environment variables'')
     \<in> set (snd (startup (Some []) mk))"
    by (simp add: startup_events configure_api_def)
next
  have "pystr_of ''gemini_configured'' \<noteq> pystr_of ''status''"
       "pystr_of ''gemini_configured'' \<noteq> pystr_of ''timestamp''"
    by (simp_all add: pystr_of_def)
  then show "field (fst (health_check (fst (startup (Some []) mk)) now)) ''gemini_configured''
     = Some (JBool True)"
    by (simp add: health_check_def field_def startup_key Let_def)
qed

end
